theory Spec2Isabelle
  imports Complex_Main
begin

section \<open>JavaScript values used by the server\<close>

text \<open>
  A JavaScript number that reaches the server as a decimal literal (a JSON number, or
  the text handed to \<open>parseFloat\<close>) is kept as the decimal it denotes:
  \<open>Decimal neg m e\<close> stands for \<open>(-1)^neg * m * 10^e\<close>. \<open>NaN\<close> and the two
  infinities are values of their own.
\<close>

datatype number = NaN | Infinity bool | Decimal bool nat int

definition isDigit :: "char \<Rightarrow> bool" where
  "isDigit c = (48 \<le> (of_char c :: nat) \<and> (of_char c :: nat) \<le> 57)"

definition digitVal :: "char \<Rightarrow> nat" where
  "digitVal c = (of_char c :: nat) - 48"

definition digitsVal :: "string \<Rightarrow> nat" where
  "digitsVal ds = foldl (\<lambda>a c. 10 * a + digitVal c) 0 ds"

text \<open>The ASCII members of the white space that \<open>parseFloat\<close> skips: TAB, LF, VT, FF, CR, SP.\<close>

definition isStrWhiteSpaceChar :: "char \<Rightarrow> bool" where
  "isStrWhiteSpaceChar c = ((of_char c :: nat) \<in> {9, 10, 11, 12, 13, 32})"

text \<open>An optional sign in front of a numeral: the flag is True for \<open>-\<close>.\<close>

fun signPart :: "string \<Rightarrow> bool \<times> string" where
  "signPart [] = (False, [])"
| "signPart (c # cs) =
     (if c = CHR ''-'' then (True, cs)
      else if c = CHR ''+'' then (False, cs)
      else (False, c # cs))"

text \<open>
  The exponent part \<open>e\<close>/\<open>E\<close>, optional sign, digits. It counts only when at least
  one digit follows; otherwise the longest numeric prefix ends before the \<open>e\<close>.
\<close>

fun exponentPart :: "string \<Rightarrow> int" where
  "exponentPart [] = 0"
| "exponentPart (c # cs) =
     (if c = CHR ''e'' \<or> c = CHR ''E'' then
        (let (eneg, ds) = signPart cs; digits = takeWhile isDigit ds
         in if digits = [] then 0
            else if eneg then - int (digitsVal digits) else int (digitsVal digits))
      else 0)"

text \<open>The fraction after the integer digits: a dot and the digits after it.\<close>

fun fractionPart :: "string \<Rightarrow> string \<times> string" where
  "fractionPart [] = ([], [])"
| "fractionPart (c # cs) =
     (if c = CHR ''.'' then (takeWhile isDigit cs, dropWhile isDigit cs)
      else ([], c # cs))"

text \<open>
  The global \<open>parseFloat\<close>: skip leading white space, read the longest prefix that is a
  decimal literal (sign, then \<open>Infinity\<close> or digits with an optional fraction and
  exponent), give \<open>NaN\<close> when there is none. Trailing text is ignored.
\<close>

definition parseFloat :: "string \<Rightarrow> number" where
  "parseFloat inputString =
     (let trimmed = dropWhile isStrWhiteSpaceChar inputString;
          (neg, rest) = signPart trimmed
      in if take 8 rest = ''Infinity'' then Infinity neg
         else
           (let ip = takeWhile isDigit rest;
                (fp, rest') = fractionPart (dropWhile isDigit rest)
            in if ip = [] \<and> fp = [] then NaN
               else Decimal neg (digitsVal (ip @ fp)) (exponentPart rest' - int (length fp))))"

text \<open>
  The comparison \<open>x > 0\<close> on the IEEE double nearest to the number. \<open>NaN\<close> compares
  false. A positive decimal is a positive double unless it underflows to zero, which
  round-to-nearest-even does exactly for values up to \<open>2^-1075\<close>.
\<close>

fun gt0 :: "number \<Rightarrow> bool" where
  "gt0 NaN = False"
| "gt0 (Infinity neg) = (\<not> neg)"
| "gt0 (Decimal neg m e) =
     (\<not> neg \<and> (if 0 \<le> e then 0 < m else 10 ^ nat (- e) < m * 2 ^ 1075))"

text \<open>\<open>a || null\<close> and \<open>a || "dflt"\<close> on an optional string: the empty string is falsy, like a missing one.\<close>

definition orNull :: "string option \<Rightarrow> string option" where
  "orNull a = (case a of None \<Rightarrow> None | Some s \<Rightarrow> if s = [] then None else Some s)"

definition orDefault :: "string option \<Rightarrow> string \<Rightarrow> string" where
  "orDefault a dflt = (case a of None \<Rightarrow> dflt | Some s \<Rightarrow> if s = [] then dflt else s)"

text \<open>One key of a \<open>Partial<T>\<close> spread over an object: an absent key keeps the old value.\<close>

definition spread :: "'a \<Rightarrow> 'a option \<Rightarrow> 'a" where
  "spread old upd = (case upd of None \<Rightarrow> old | Some v \<Rightarrow> v)"

section \<open>The schema (shared/schema.ts)\<close>

text \<open>
  Timestamps (\<open>Date\<close>) are milliseconds as \<open>nat\<close>; every operation that calls
  \<open>new Date()\<close> takes the clock reading as its last argument. Decimal columns are
  strings, nullable columns are options.
\<close>

record User =
  u_id :: int
  u_username :: string
  u_password :: string
  u_derivAccountId :: "string option"
  u_balance :: "string option"
  u_createdAt :: "nat option"

record Market =
  m_id :: int
  m_symbol :: string
  m_name :: string
  m_category :: string
  m_currentPrice :: "string option"
  m_change :: "string option"
  m_changePercent :: "string option"
  m_high :: "string option"
  m_low :: "string option"
  m_volume :: "string option"
  m_isActive :: "bool option"
  m_lastUpdate :: "nat option"

text \<open>\<open>Partial<Market>\<close>: every key may be absent.\<close>

record MarketUpdates =
  mu_id :: "int option"
  mu_symbol :: "string option"
  mu_name :: "string option"
  mu_category :: "string option"
  mu_currentPrice :: "string option option"
  mu_change :: "string option option"
  mu_changePercent :: "string option option"
  mu_high :: "string option option"
  mu_low :: "string option option"
  mu_volume :: "string option option"
  mu_isActive :: "bool option option"
  mu_lastUpdate :: "nat option option"

record Trade =
  t_id :: int
  t_userId :: int
  t_symbol :: string
  t_tradeType :: string
  t_contractType :: string
  t_stake :: string
  t_entryPrice :: "string option"
  t_exitPrice :: "string option"
  t_duration :: int
  t_durationType :: string
  t_status :: string
  t_payout :: "string option"
  t_profit :: "string option"
  t_derivTradeId :: "string option"
  t_createdAt :: "nat option"
  t_closedAt :: "nat option"

text \<open>\<open>InsertTrade\<close>: the trade columns without id, createdAt and closedAt; nullable and defaulted columns are optional.\<close>

record InsertTrade =
  it_userId :: int
  it_symbol :: string
  it_tradeType :: string
  it_contractType :: string
  it_stake :: string
  it_entryPrice :: "string option"
  it_exitPrice :: "string option"
  it_duration :: int
  it_durationType :: string
  it_status :: "string option"
  it_payout :: "string option"
  it_profit :: "string option"
  it_derivTradeId :: "string option"

text \<open>\<open>Partial<Trade>\<close>.\<close>

record TradeUpdates =
  tu_id :: "int option"
  tu_userId :: "int option"
  tu_symbol :: "string option"
  tu_tradeType :: "string option"
  tu_contractType :: "string option"
  tu_stake :: "string option"
  tu_entryPrice :: "string option option"
  tu_exitPrice :: "string option option"
  tu_duration :: "int option"
  tu_durationType :: "string option"
  tu_status :: "string option"
  tu_payout :: "string option option"
  tu_profit :: "string option option"
  tu_derivTradeId :: "string option option"
  tu_createdAt :: "nat option option"
  tu_closedAt :: "nat option option"

section \<open>MemStorage (server/storage.ts)\<close>

record MemStorage =
  users :: "int \<rightharpoonup> User"
  markets :: "string \<rightharpoonup> Market"
  trades :: "int \<rightharpoonup> Trade"
  currentUserId :: int
  currentTradeId :: int

definition getMarket :: "MemStorage \<Rightarrow> string \<Rightarrow> Market option" where
  "getMarket s symbol = markets s symbol"

definition updateMarket :: "MemStorage \<Rightarrow> string \<Rightarrow> MarketUpdates \<Rightarrow> nat \<Rightarrow> MemStorage" where
  "updateMarket s symbol updates now =
     (case markets s symbol of
        None \<Rightarrow> s
      | Some market \<Rightarrow>
          (let updatedMarket =
                 \<lparr> m_id = spread (m_id market) (mu_id updates),
                   m_symbol = spread (m_symbol market) (mu_symbol updates),
                   m_name = spread (m_name market) (mu_name updates),
                   m_category = spread (m_category market) (mu_category updates),
                   m_currentPrice = spread (m_currentPrice market) (mu_currentPrice updates),
                   m_change = spread (m_change market) (mu_change updates),
                   m_changePercent = spread (m_changePercent market) (mu_changePercent updates),
                   m_high = spread (m_high market) (mu_high updates),
                   m_low = spread (m_low market) (mu_low updates),
                   m_volume = spread (m_volume market) (mu_volume updates),
                   m_isActive = spread (m_isActive market) (mu_isActive updates),
                   m_lastUpdate = Some now \<rparr>
           in s\<lparr>markets := (markets s)(symbol \<mapsto> updatedMarket)\<rparr>))"

definition createTrade :: "MemStorage \<Rightarrow> InsertTrade \<Rightarrow> nat \<Rightarrow> Trade \<times> MemStorage" where
  "createTrade s insertTrade now =
     (let id = currentTradeId s;
          trade =
            \<lparr> t_id = id,
              t_userId = it_userId insertTrade,
              t_symbol = it_symbol insertTrade,
              t_tradeType = it_tradeType insertTrade,
              t_contractType = it_contractType insertTrade,
              t_stake = it_stake insertTrade,
              t_entryPrice = orNull (it_entryPrice insertTrade),
              t_exitPrice = None,
              t_duration = it_duration insertTrade,
              t_durationType = it_durationType insertTrade,
              t_status = orDefault (it_status insertTrade) ''open'',
              t_payout = None,
              t_profit = None,
              t_derivTradeId = orNull (it_derivTradeId insertTrade),
              t_createdAt = Some now,
              t_closedAt = None \<rparr>
      in (trade, s\<lparr>currentTradeId := id + 1, trades := (trades s)(id \<mapsto> trade)\<rparr>))"

definition updateTrade :: "MemStorage \<Rightarrow> int \<Rightarrow> TradeUpdates \<Rightarrow> MemStorage" where
  "updateTrade s tradeId updates =
     (case trades s tradeId of
        None \<Rightarrow> s
      | Some trade \<Rightarrow>
          (let updatedTrade =
                 \<lparr> t_id = spread (t_id trade) (tu_id updates),
                   t_userId = spread (t_userId trade) (tu_userId updates),
                   t_symbol = spread (t_symbol trade) (tu_symbol updates),
                   t_tradeType = spread (t_tradeType trade) (tu_tradeType updates),
                   t_contractType = spread (t_contractType trade) (tu_contractType updates),
                   t_stake = spread (t_stake trade) (tu_stake updates),
                   t_entryPrice = spread (t_entryPrice trade) (tu_entryPrice updates),
                   t_exitPrice = spread (t_exitPrice trade) (tu_exitPrice updates),
                   t_duration = spread (t_duration trade) (tu_duration updates),
                   t_durationType = spread (t_durationType trade) (tu_durationType updates),
                   t_status = spread (t_status trade) (tu_status updates),
                   t_payout = spread (t_payout trade) (tu_payout updates),
                   t_profit = spread (t_profit trade) (tu_profit updates),
                   t_derivTradeId = spread (t_derivTradeId trade) (tu_derivTradeId updates),
                   t_createdAt = spread (t_createdAt trade) (tu_createdAt updates),
                   t_closedAt = spread (t_closedAt trade) (tu_closedAt updates) \<rparr>
           in s\<lparr>trades := (trades s)(tradeId \<mapsto> updatedTrade)\<rparr>))"

definition closeTrade :: "MemStorage \<Rightarrow> int \<Rightarrow> string \<Rightarrow> string \<Rightarrow> string \<Rightarrow> nat \<Rightarrow> MemStorage" where
  "closeTrade s tradeId exitPrice payout profit now =
     (case trades s tradeId of
        None \<Rightarrow> s
      | Some trade \<Rightarrow>
          (let updatedTrade =
                 trade\<lparr> t_exitPrice := Some exitPrice,
                        t_payout := Some payout,
                        t_profit := Some profit,
                        t_status := (if gt0 (parseFloat profit) then ''won'' else ''lost''),
                        t_closedAt := Some now \<rparr>
           in s\<lparr>trades := (trades s)(tradeId \<mapsto> updatedTrade)\<rparr>))"


text \<open>The constructor: empty users and trades, ids from 1, the three demo markets.\<close>

definition demoMarkets :: "nat \<Rightarrow> Market list" where
  "demoMarkets now =
     [ \<lparr> m_id = 1, m_symbol = ''EUR/USD'', m_name = ''Euro vs US Dollar'', m_category = ''forex'',
         m_currentPrice = Some ''1.08547'', m_change = Some ''0.0023'', m_changePercent = Some ''0.21'',
         m_high = Some ''1.08721'', m_low = Some ''1.08324'', m_volume = Some ''2.4M'',
         m_isActive = Some True, m_lastUpdate = Some now \<rparr>,
       \<lparr> m_id = 2, m_symbol = ''GBP/USD'', m_name = ''British Pound vs US Dollar'', m_category = ''forex'',
         m_currentPrice = Some ''1.27845'', m_change = Some ''-0.0012'', m_changePercent = Some ''-0.09'',
         m_high = Some ''1.28021'', m_low = Some ''1.27654'', m_volume = Some ''1.8M'',
         m_isActive = Some True, m_lastUpdate = Some now \<rparr>,
       \<lparr> m_id = 3, m_symbol = ''BTC/USD'', m_name = ''Bitcoin vs US Dollar'', m_category = ''crypto'',
         m_currentPrice = Some ''43127.50'', m_change = Some ''847.20'', m_changePercent = Some ''2.01'',
         m_high = Some ''43850.00'', m_low = Some ''42100.00'', m_volume = Some ''24.5K'',
         m_isActive = Some True, m_lastUpdate = Some now \<rparr> ]"

definition newMemStorage :: "nat \<Rightarrow> MemStorage" where
  "newMemStorage now =
     \<lparr> users = Map.empty,
       markets = foldl (\<lambda>ms market. ms(m_symbol market \<mapsto> market)) Map.empty (demoMarkets now),
       trades = Map.empty,
       currentUserId = 1,
       currentTradeId = 1 \<rparr>"

text \<open>\<open>createMarket\<close>: the id is the size of the map plus one; \<open>||\<close> turns empty strings into null.\<close>

record InsertMarket =
  im_symbol :: string
  im_name :: string
  im_category :: string
  im_currentPrice :: "string option"
  im_change :: "string option"
  im_changePercent :: "string option"
  im_high :: "string option"
  im_low :: "string option"
  im_volume :: "string option"
  im_isActive :: "bool option option"

definition createMarket :: "MemStorage \<Rightarrow> InsertMarket \<Rightarrow> nat \<Rightarrow> Market \<times> MemStorage" where
  "createMarket s insertMarket now =
     (let market =
            \<lparr> m_id = int (card (dom (markets s))) + 1,
              m_symbol = im_symbol insertMarket,
              m_name = im_name insertMarket,
              m_category = im_category insertMarket,
              m_currentPrice = orNull (im_currentPrice insertMarket),
              m_change = orNull (im_change insertMarket),
              m_changePercent = orNull (im_changePercent insertMarket),
              m_high = orNull (im_high insertMarket),
              m_low = orNull (im_low insertMarket),
              m_volume = orNull (im_volume insertMarket),
              m_isActive = (case im_isActive insertMarket of None \<Rightarrow> Some True | Some b \<Rightarrow> b),
              m_lastUpdate = Some now \<rparr>
      in (market, s\<lparr>markets := (markets s)(m_symbol market \<mapsto> market)\<rparr>))"









definition noUpdates :: TradeUpdates where
  "noUpdates =
     \<lparr> tu_id = None, tu_userId = None, tu_symbol = None, tu_tradeType = None, tu_contractType = None,
       tu_stake = None, tu_entryPrice = None, tu_exitPrice = None, tu_duration = None,
       tu_durationType = None, tu_status = None, tu_payout = None, tu_profit = None,
       tu_derivTradeId = None, tu_createdAt = None, tu_closedAt = None \<rparr>"




section \<open>Number to string\<close>

text \<open>
  \<open>Number.prototype.toString\<close> in radix 10, after the language standard: with \<open>s\<close> the
  shortest digit string of the number (\<open>k\<close> digits) and \<open>n\<close> the position of the
  decimal point, plain notation for \<open>-6 < n \<le> 21\<close> and exponent notation outside. The
  digits of a decimal literal without its trailing zeros are the shortest digits of the
  double nearest to it whenever the literal has at most 15 significant digits and is in
  the normal range, which is where this model is used.
\<close>

definition digitChar :: "nat \<Rightarrow> char" where
  "digitChar d =
     (if d = 0 then CHR ''0'' else if d = 1 then CHR ''1'' else if d = 2 then CHR ''2''
      else if d = 3 then CHR ''3'' else if d = 4 then CHR ''4'' else if d = 5 then CHR ''5''
      else if d = 6 then CHR ''6'' else if d = 7 then CHR ''7'' else if d = 8 then CHR ''8''
      else CHR ''9'')"

fun digitsOf :: "nat \<Rightarrow> string" where
  "digitsOf n = (if n < 10 then [digitChar n] else digitsOf (n div 10) @ [digitChar (n mod 10)])"

declare digitsOf.simps [simp del]

definition stripTrailingZeros :: "string \<Rightarrow> string" where
  "stripTrailingZeros ds = rev (dropWhile (\<lambda>c. c = CHR ''0'') (rev ds))"

definition numberToString :: "number \<Rightarrow> string" where
  "numberToString x =
     (case x of
        NaN \<Rightarrow> ''NaN''
      | Infinity neg \<Rightarrow> (if neg then ''-Infinity'' else ''Infinity'')
      | Decimal neg m e \<Rightarrow>
          (if m = 0 then ''0''
           else
             (let all = digitsOf m;
                  s = stripTrailingZeros all;
                  k = int (length s);
                  n = int (length all) + e;
                  sign = (if neg then ''-'' else []);
                  expo = (if 0 \<le> n - 1 then ''e+'' @ digitsOf (nat (n - 1))
                          else ''e-'' @ digitsOf (nat (1 - n)))
              in sign @
                 (if k \<le> n \<and> n \<le> 21 then s @ replicate (nat (n - k)) CHR ''0''
                  else if 0 < n \<and> n \<le> 21 then take (nat n) s @ ''.'' @ drop (nat n) s
                  else if - 6 < n \<and> n \<le> 0 then ''0.'' @ replicate (nat (- n)) CHR ''0'' @ s
                  else if k = 1 then s @ expo
                  else take 1 s @ ''.'' @ drop 1 s @ expo))))"

section \<open>DerivAPI (server/deriv-api.ts)\<close>

record DerivAPIConfig =
  appId :: string
  apiToken :: "string option"
  wsUrl :: "string option"

datatype readyState = CONNECTING | OPEN | CLOSING | CLOSED

text \<open>The frames the class writes to the socket.\<close>

record BuyParameters =
  bp_amount :: number
  bp_basis :: string
  bp_contract_type :: string
  bp_currency :: string
  bp_duration :: int
  bp_duration_unit :: string
  bp_symbol :: string

datatype request =
    Authorize string
  | ActiveSymbols string string
  | Ticks string int int
  | Forget int
  | Buy int number BuyParameters

text \<open>
  The events the class emits from its socket handlers. (The message handler only passes
  each parsed frame on to the listeners of its kind, unchanged; the tick listener below
  takes the frame as its argument.)
\<close>

datatype emitted_event = Connected | Disconnected | ErrorEvent | MaxReconnectReached

text \<open>
  The object state. The first seven fields are the private fields of the class.
  The last four record its surroundings: \<open>sockets\<close> holds the ready state of every
  WebSocket that \<open>connect\<close> has constructed (a handle is an index into it; the
  handlers of each of them are closures over this object), \<open>timers\<close> the delays of
  the pending \<open>setTimeout\<close> callbacks, \<open>emitted\<close> the events emitted so far and
  \<open>sent\<close> the frames written, each with the socket that took it.
\<close>

record DerivAPI =
  ws :: "nat option"
  config :: DerivAPIConfig
  reconnectAttempts :: nat
  maxReconnectAttempts :: nat
  reconnectDelay :: nat
  isConnected :: bool
  subscriptions :: "string \<rightharpoonup> int"
  sockets :: "readyState list"
  timers :: "nat list"
  emitted :: "emitted_event list"
  sent :: "(nat \<times> request) list"

definition newDerivAPI :: "DerivAPIConfig \<Rightarrow> DerivAPI" where
  "newDerivAPI cfg =
     \<lparr> ws = None,
       config = cfg\<lparr>wsUrl := (case wsUrl cfg of
                                 None \<Rightarrow> Some ''wss://ws.binaryws.com/websockets/v3''
                               | Some url \<Rightarrow> Some url)\<rparr>,
       reconnectAttempts = 0,
       maxReconnectAttempts = 5,
       reconnectDelay = 1000,
       isConnected = False,
       subscriptions = Map.empty,
       sockets = [],
       timers = [],
       emitted = [],
       sent = [] \<rparr>"

text \<open>Truthiness of an optional string: \<open>undefined\<close> and the empty string are falsy.\<close>

definition truthy :: "string option \<Rightarrow> bool" where
  "truthy a = (case a of None \<Rightarrow> False | Some t \<Rightarrow> t \<noteq> [])"

definition readyStateOf :: "DerivAPI \<Rightarrow> nat \<Rightarrow> readyState option" where
  "readyStateOf s h = (if h < length (sockets s) then Some (sockets s ! h) else None)"

text \<open>\<open>send\<close>: writes to the current socket when it is open, logs an error otherwise.\<close>

definition send :: "DerivAPI \<Rightarrow> request \<Rightarrow> DerivAPI" where
  "send s data =
     (case ws s of
        None \<Rightarrow> s
      | Some h \<Rightarrow> if readyStateOf s h = Some OPEN then s\<lparr>sent := sent s @ [(h, data)]\<rparr> else s)"

text \<open>
  \<open>connect\<close>: constructs a WebSocket, stores it in \<open>ws\<close> and attaches the four
  handlers. There is no check of the current state. (The constructor throws only on a
  malformed URL; the URL here is the fixed default unless the configuration overrides it.)
\<close>

definition connect :: "DerivAPI \<Rightarrow> DerivAPI" where
  "connect s = s\<lparr>ws := Some (length (sockets s)), sockets := sockets s @ [CONNECTING]\<rparr>"

definition authorize :: "DerivAPI \<Rightarrow> DerivAPI" where
  "authorize s =
     (if \<not> truthy (apiToken (config s)) then s
      else (case apiToken (config s) of None \<Rightarrow> s | Some token \<Rightarrow> send s (Authorize token)))"

definition handleReconnect :: "DerivAPI \<Rightarrow> DerivAPI" where
  "handleReconnect s =
     (if reconnectAttempts s < maxReconnectAttempts s then
        (let attempts = reconnectAttempts s + 1;
             delay = reconnectDelay s * 2 ^ (attempts - 1)
         in s\<lparr>reconnectAttempts := attempts, timers := timers s @ [delay]\<rparr>)
      else s\<lparr>emitted := emitted s @ [MaxReconnectReached]\<rparr>)"

text \<open>
  The handlers attached by \<open>connect\<close>, for the socket with handle \<open>h\<close>. The socket's
  own ready state (open on the open event, closed on the close event) is changed by the
  WebSocket, the rest is the handler's body.
\<close>

definition onOpen :: "DerivAPI \<Rightarrow> nat \<Rightarrow> DerivAPI" where
  "onOpen s h =
     (let s1 = s\<lparr>sockets := (sockets s)[h := OPEN],
                 isConnected := True,
                 reconnectAttempts := 0,
                 emitted := emitted s @ [Connected]\<rparr>
      in if truthy (apiToken (config s1)) then authorize s1 else s1)"

definition onClose :: "DerivAPI \<Rightarrow> nat \<Rightarrow> DerivAPI" where
  "onClose s h =
     handleReconnect
       (s\<lparr>sockets := (sockets s)[h := CLOSED],
          isConnected := False,
          emitted := emitted s @ [Disconnected]\<rparr>)"

definition onError :: "DerivAPI \<Rightarrow> nat \<Rightarrow> DerivAPI" where
  "onError s h = s\<lparr>emitted := emitted s @ [ErrorEvent]\<rparr>"

text \<open>The \<open>setTimeout\<close> callback of \<open>handleReconnect\<close>: the i-th pending timer fires and calls \<open>connect\<close>.\<close>

definition onTimeout :: "DerivAPI \<Rightarrow> nat \<Rightarrow> DerivAPI" where
  "onTimeout s i = connect (s\<lparr>timers := take i (timers s) @ drop (Suc i) (timers s)\<rparr>)"

text \<open>
  \<open>WebSocket.close()\<close>: nothing on a closed socket, otherwise the socket starts closing
  (from connecting: the handshake is aborted); its close event follows later.
\<close>

definition closeCall :: "readyState \<Rightarrow> readyState" where
  "closeCall st = (if st = CLOSED then CLOSED else CLOSING)"

definition disconnect :: "DerivAPI \<Rightarrow> DerivAPI" where
  "disconnect s =
     (case ws s of
        None \<Rightarrow> s
      | Some h \<Rightarrow>
          (case readyStateOf s h of
             None \<Rightarrow> s\<lparr>ws := None\<rparr>
           | Some st \<Rightarrow> s\<lparr>sockets := (sockets s)[h := closeCall st], ws := None\<rparr>))"

definition getActiveSymbols :: "DerivAPI \<Rightarrow> DerivAPI" where
  "getActiveSymbols s = send s (ActiveSymbols ''brief'' ''basic'')"

text \<open>
  \<open>generateRequestId\<close>: \<open>Math.floor(Math.random() * 1000000000)\<close>. The random draw, a
  number in [0, 1), is an argument.
\<close>

definition generateRequestId :: "rat \<Rightarrow> int" where
  "generateRequestId random = \<lfloor>random * 1000000000\<rfloor>"

definition subscribeToTicks :: "DerivAPI \<Rightarrow> string \<Rightarrow> rat \<Rightarrow> DerivAPI" where
  "subscribeToTicks s symbol random =
     (let reqId = generateRequestId random;
          s1 = s\<lparr>subscriptions := (subscriptions s)(symbol \<mapsto> reqId)\<rparr>
      in send s1 (Ticks symbol 1 reqId))"

text \<open>\<open>if (reqId)\<close>: a missing entry is falsy, and so is the id 0.\<close>

definition unsubscribeFromTicks :: "DerivAPI \<Rightarrow> string \<Rightarrow> DerivAPI" where
  "unsubscribeFromTicks s symbol =
     (case subscriptions s symbol of
        None \<Rightarrow> s
      | Some reqId \<Rightarrow>
          if reqId = 0 then s
          else (send s (Forget reqId))\<lparr>subscriptions := (subscriptions s)(symbol := None)\<rparr>)"

record TradeOptions =
  o_symbol :: string
  o_tradeType :: string
  o_amount :: number
  o_duration :: int
  o_durationType :: string
  o_basis :: string

datatype error = ApiTokenRequired | ClientNotConnected

text \<open>\<open>placeTrade\<close>: throws \<open>Error('API token required for trading')\<close> before anything else when no token is configured.\<close>

definition placeTrade :: "DerivAPI \<Rightarrow> TradeOptions \<Rightarrow> error + DerivAPI" where
  "placeTrade s options =
     (if \<not> truthy (apiToken (config s)) then Inl ApiTokenRequired
      else
        (let contractType = (if o_tradeType options = ''CALL'' then ''CALLE'' else ''PUTE'');
             request =
               Buy 1 (o_amount options)
                 \<lparr> bp_amount = o_amount options,
                   bp_basis = o_basis options,
                   bp_contract_type = contractType,
                   bp_currency = ''USD'',
                   bp_duration = o_duration options,
                   bp_duration_unit = o_durationType options,
                   bp_symbol = o_symbol options \<rparr>
         in Inr (send s request)))"

text \<open>
  What can happen to a DerivAPI object after its first \<open>connect\<close>: the events of its
  sockets, a reconnect timer firing, and the calls \<open>disconnect\<close>, \<open>subscribeToTicks\<close>
  and \<open>unsubscribeFromTicks\<close> from outside. A socket can open while it is
  connecting, and can report an error or close while it is not closed yet.
\<close>

datatype occurrence =
    WsOpen nat
  | WsClose nat
  | WsError nat
  | Timeout nat
  | CallDisconnect
  | CallSubscribe string rat
  | CallUnsubscribe string

fun enabled :: "DerivAPI \<Rightarrow> occurrence \<Rightarrow> bool" where
  "enabled s (WsOpen h) = (readyStateOf s h = Some CONNECTING)"
| "enabled s (WsClose h) = (readyStateOf s h \<noteq> None \<and> readyStateOf s h \<noteq> Some CLOSED)"
| "enabled s (WsError h) = (readyStateOf s h \<noteq> None \<and> readyStateOf s h \<noteq> Some CLOSED)"
| "enabled s (Timeout i) = (i < length (timers s))"
| "enabled s CallDisconnect = True"
| "enabled s (CallSubscribe symbol random) = (0 \<le> random \<and> random < 1)"
| "enabled s (CallUnsubscribe symbol) = True"

fun occur :: "DerivAPI \<Rightarrow> occurrence \<Rightarrow> DerivAPI" where
  "occur s (WsOpen h) = onOpen s h"
| "occur s (WsClose h) = onClose s h"
| "occur s (WsError h) = onError s h"
| "occur s (Timeout i) = onTimeout s i"
| "occur s CallDisconnect = disconnect s"
| "occur s (CallSubscribe symbol random) = subscribeToTicks s symbol random"
| "occur s (CallUnsubscribe symbol) = unsubscribeFromTicks s symbol"


definition exampleConfig :: DerivAPIConfig where
  "exampleConfig = \<lparr> appId = ''76613'', apiToken = Some ''token'', wsUrl = None \<rparr>"

definition noTokenConfig :: DerivAPIConfig where
  "noTokenConfig = \<lparr> appId = ''76613'', apiToken = None, wsUrl = None \<rparr>"

text \<open>The sockets of the object that are not closed yet, and how often exhaustion was signalled.\<close>

definition live :: "DerivAPI \<Rightarrow> nat" where
  "live s = length (filter (\<lambda>st. st \<noteq> CLOSED) (sockets s))"

definition exhaustedCount :: "DerivAPI \<Rightarrow> nat" where
  "exhaustedCount s = count_list (emitted s) MaxReconnectReached"



text \<open>An object with a token, connected and open; and one that is connecting.\<close>

definition connectingAPI :: DerivAPI where
  "connectingAPI = connect (newDerivAPI exampleConfig)"

definition connectedAPI :: DerivAPI where
  "connectedAPI = onOpen connectingAPI 0"







section \<open>ClientManager (server/client-manager.ts)\<close>

record ClientAccount =
  ca_userId :: int
  ca_derivAccountId :: string
  ca_apiToken :: string
  ca_balance :: string
  ca_currency :: string
  ca_isActive :: bool

record TradeRequest =
  tr_clientId :: int
  tr_symbol :: string
  tr_tradeType :: string
  tr_amount :: number
  tr_duration :: int
  tr_durationType :: string
  tr_contractType :: string

text \<open>
  The two maps of the class, and the DerivAPI objects it has constructed: \<open>objects\<close>
  holds every object made by \<open>connectClient\<close> together with the user id its listeners
  were registered for; a reference is an index into it. An object that is no longer in
  \<open>clientAPIs\<close> stays in \<open>objects\<close>: its sockets and listeners are still there.
\<close>

record ClientManager =
  objects :: "(int \<times> DerivAPI) list"
  clientAPIs :: "int \<rightharpoonup> nat"
  activeConnections :: "int \<rightharpoonup> bool"

definition newClientManager :: ClientManager where
  "newClientManager = \<lparr> objects = [], clientAPIs = Map.empty, activeConnections = Map.empty \<rparr>"

definition objectAt :: "ClientManager \<Rightarrow> nat \<Rightarrow> (int \<times> DerivAPI) option" where
  "objectAt m ref = (if ref < length (objects m) then Some (objects m ! ref) else None)"

text \<open>
  \<open>connectClient\<close>: a new DerivAPI with the account's token, \<open>connect\<close>, the four
  listeners, then the object is stored under the user id. Nothing looks at an earlier
  entry. \<open>connect\<close> catches its own errors, so the result is always true.
\<close>

definition connectClient :: "ClientManager \<Rightarrow> ClientAccount \<Rightarrow> bool \<times> ClientManager" where
  "connectClient m clientAccount =
     (let derivAPI = connect (newDerivAPI \<lparr> appId = ''76613'',
                                            apiToken = Some (ca_apiToken clientAccount),
                                            wsUrl = None \<rparr>);
          ref = length (objects m)
      in (True,
          m\<lparr>objects := objects m @ [(ca_userId clientAccount, derivAPI)],
            clientAPIs := (clientAPIs m)(ca_userId clientAccount \<mapsto> ref)\<rparr>))"

text \<open>The listeners for connected and disconnected, registered for \<open>userId\<close>.\<close>

fun listener :: "int \<Rightarrow> ClientManager \<Rightarrow> emitted_event \<Rightarrow> ClientManager" where
  "listener userId m Connected = m\<lparr>activeConnections := (activeConnections m)(userId \<mapsto> True)\<rparr>"
| "listener userId m Disconnected = m\<lparr>activeConnections := (activeConnections m)(userId \<mapsto> False)\<rparr>"
| "listener userId m ErrorEvent = m"
| "listener userId m MaxReconnectReached = m"

text \<open>Something occurs at the object with reference \<open>ref\<close>; its listeners see what it emits.\<close>

definition deliver :: "ClientManager \<Rightarrow> nat \<Rightarrow> occurrence \<Rightarrow> ClientManager" where
  "deliver m ref x =
     (case objectAt m ref of
        None \<Rightarrow> m
      | Some (userId, api) \<Rightarrow>
          if enabled api x then
            (let api' = occur api x;
                 news = drop (length (emitted api)) (emitted api')
             in foldl (listener userId) (m\<lparr>objects := (objects m)[ref := (userId, api')]\<rparr>) news)
          else m)"

definition disconnectClient :: "ClientManager \<Rightarrow> int \<Rightarrow> ClientManager" where
  "disconnectClient m clientId =
     (case clientAPIs m clientId of
        None \<Rightarrow> m
      | Some ref \<Rightarrow>
          m\<lparr>objects := (case objectAt m ref of
                           None \<Rightarrow> objects m
                         | Some (userId, api) \<Rightarrow> (objects m)[ref := (userId, disconnect api)]),
            clientAPIs := (clientAPIs m)(clientId := None),
            activeConnections := (activeConnections m)(clientId := None)\<rparr>)"

definition isClientConnected :: "ClientManager \<Rightarrow> int \<Rightarrow> bool" where
  "isClientConnected m clientId = (activeConnections m clientId = Some True)"

text \<open>
  \<open>placeTradeForClient\<close> with the module's storage. An exception leaves manager and
  storage as they are at the throw; the error of \<open>placeTrade\<close> is logged and rethrown
  before \<open>createTrade\<close> is reached. (A reference in \<open>clientAPIs\<close> always points into
  \<open>objects\<close>; the branch for a dangling one is there for totality only.)
\<close>

definition placeTradeForClient ::
    "ClientManager \<times> MemStorage \<Rightarrow> TradeRequest \<Rightarrow> nat \<Rightarrow> (error + Trade) \<times> ClientManager \<times> MemStorage" where
  "placeTradeForClient ms tradeRequest now =
     (let m = fst ms; storage = snd ms in
      case clientAPIs m (tr_clientId tradeRequest) of
        None \<Rightarrow> (Inl ClientNotConnected, m, storage)
      | Some ref \<Rightarrow>
          if \<not> isClientConnected m (tr_clientId tradeRequest) then (Inl ClientNotConnected, m, storage)
          else
            (case objectAt m ref of
               None \<Rightarrow> (Inl ClientNotConnected, m, storage)
             | Some (userId, derivAPI) \<Rightarrow>
                 (case placeTrade derivAPI
                         \<lparr> o_symbol = tr_symbol tradeRequest,
                           o_tradeType = tr_tradeType tradeRequest,
                           o_amount = tr_amount tradeRequest,
                           o_duration = tr_duration tradeRequest,
                           o_durationType = tr_durationType tradeRequest,
                           o_basis = ''stake'' \<rparr> of
                    Inl e \<Rightarrow> (Inl e, m, storage)
                  | Inr derivAPI' \<Rightarrow>
                      (let created =
                             createTrade storage
                               \<lparr> it_userId = tr_clientId tradeRequest,
                                 it_symbol = tr_symbol tradeRequest,
                                 it_tradeType = tr_tradeType tradeRequest,
                                 it_contractType = tr_contractType tradeRequest,
                                 it_stake = numberToString (tr_amount tradeRequest),
                                 it_entryPrice = None,
                                 it_exitPrice = None,
                                 it_duration = tr_duration tradeRequest,
                                 it_durationType =
                                   (if tr_durationType tradeRequest = ''m'' then ''minutes''
                                    else if tr_durationType tradeRequest = ''h'' then ''hours''
                                    else ''days''),
                                 it_status = Some ''open'',
                                 it_payout = None,
                                 it_profit = None,
                                 it_derivTradeId = None \<rparr> now
                       in (Inr (fst created),
                           m\<lparr>objects := (objects m)[ref := (userId, derivAPI')]\<rparr>,
                           snd created)))))"

text \<open>Example: a manager whose client 7 is connected and active, with and without a token.\<close>

definition account7 :: ClientAccount where
  "account7 = \<lparr> ca_userId = 7, ca_derivAccountId = ''CR7'', ca_apiToken = ''token'',
                ca_balance = ''0'', ca_currency = ''USD'', ca_isActive = True \<rparr>"

definition managerWith7 :: ClientManager where
  "managerWith7 = deliver (snd (connectClient newClientManager account7)) 0 (WsOpen 0)"

definition managerNoToken :: ClientManager where
  "managerNoToken =
     deliver (snd (connectClient newClientManager (account7\<lparr>ca_apiToken := []\<rparr>))) 0 (WsOpen 0)"

definition request7 :: TradeRequest where
  "request7 = \<lparr> tr_clientId = 7, tr_symbol = ''frxEURUSD'', tr_tradeType = ''CALL'',
                tr_amount = Decimal False 10 0, tr_duration = 5, tr_durationType = ''m'',
                tr_contractType = ''Higher/Lower'' \<rparr>"

section \<open>The tick listener of registerRoutes (server/routes.ts)\<close>

record TickData =
  tick_symbol :: string
  tick_quote :: number
  tick_epoch :: nat

text \<open>The envelopes sent to the browser clients; only the price update is needed here.\<close>

datatype envelope = MarketsEnvelope "Market list" | PriceUpdateEnvelope "MarketUpdates list"

text \<open>
  The part of the closure state of \<open>registerRoutes\<close> that the tick listener touches:
  the storage, the set of browser sockets with their ready states, and what was sent to
  them.
\<close>

record Routes =
  storage :: MemStorage
  clients :: "(nat \<times> readyState) list"
  delivered :: "(nat \<times> envelope) list"

definition marketUpdateOf :: "TickData \<Rightarrow> nat \<Rightarrow> MarketUpdates" where
  "marketUpdateOf tickData now =
     \<lparr> mu_id = None,
       mu_symbol = Some (tick_symbol tickData),
       mu_name = None,
       mu_category = None,
       mu_currentPrice = Some (Some (numberToString (tick_quote tickData))),
       mu_change = None,
       mu_changePercent = None,
       mu_high = None,
       mu_low = None,
       mu_volume = None,
       mu_isActive = None,
       mu_lastUpdate = Some (Some now) \<rparr>"

text \<open>The listener; \<open>now\<close> is the clock read by the listener, \<open>now'\<close> the one read inside \<open>updateMarket\<close>.\<close>

definition onTick :: "Routes \<Rightarrow> TickData \<Rightarrow> nat \<Rightarrow> nat \<Rightarrow> Routes" where
  "onTick r tickData now now' =
     (let marketUpdate = marketUpdateOf tickData now;
          storage' = updateMarket (storage r) (tick_symbol tickData) marketUpdate now'
      in r\<lparr>storage := storage',
           delivered := delivered r @
             map (\<lambda>client. (fst client, PriceUpdateEnvelope [marketUpdate]))
                 (filter (\<lambda>client. snd client = OPEN) (clients r))\<rparr>)"

text \<open>Example: the market frxEURUSD as the symbols listener stores it, three browser sockets, and the tick of the scenario.\<close>

definition marketEURUSD :: InsertMarket where
  "marketEURUSD =
     \<lparr> im_symbol = ''frxEURUSD'', im_name = ''EUR/USD'', im_category = ''forex'',
       im_currentPrice = Some ''0.00000'', im_change = Some ''0.00000'',
       im_changePercent = Some ''0.00'', im_high = Some ''0.00000'', im_low = Some ''0.00000'',
       im_volume = Some ''0'', im_isActive = Some (Some True) \<rparr>"

definition routesExample :: Routes where
  "routesExample =
     \<lparr> storage = snd (createMarket (newMemStorage 0) marketEURUSD 1),
       clients = [(1, OPEN), (2, CLOSING), (3, OPEN)],
       delivered = [] \<rparr>"

definition tickExample :: TickData where
  "tickExample = \<lparr> tick_symbol = ''frxEURUSD'', tick_quote = Decimal False 10855 (- 4), tick_epoch = 1700000000 \<rparr>"

section \<open>Properties of the trade store\<close>






text \<open>
  C10: for a trade id that is not in the store, \<open>closeTrade\<close> and \<open>updateTrade\<close> return
  the store as it was (users, markets, trades and both id counters). Neither function
  has a failing branch.
\<close>

theorem missing_trade_is_noop:
  "trades s tradeId = None \<Longrightarrow>
     closeTrade s tradeId exitPrice payout profit now = s \<and> updateTrade s tradeId updates = s"
  by (simp add: closeTrade_def updateTrade_def)

theorem missing_trade_is_noop_witness:
  "trades (newMemStorage 0) 7 = None \<and>
   closeTrade (newMemStorage 0) 7 ''1.09000'' ''185.00'' ''85.00'' 3 = newMemStorage 0 \<and>
   updateTrade (newMemStorage 0) 7 noUpdates = newMemStorage 0"
proof -
  have h: "trades (newMemStorage 0) 7 = None" by (simp add: newMemStorage_def)
  show ?thesis using h missing_trade_is_noop [OF h] by simp
qed







section \<open>Properties of DerivAPI\<close>

lemmas api_eval = connectingAPI_def connectedAPI_def newDerivAPI_def exampleConfig_def connect_def
  onOpen_def onClose_def onTimeout_def onError_def disconnect_def handleReconnect_def authorize_def
  send_def truthy_def readyStateOf_def closeCall_def Let_def




lemma live_send [simp]: "live (send s r) = live s"
  by (simp add: send_def live_def split: option.splits)

lemma send_fields [simp]:
  "timers (send s r) = timers s" "emitted (send s r) = emitted s"
  "reconnectAttempts (send s r) = reconnectAttempts s"
  "maxReconnectAttempts (send s r) = maxReconnectAttempts s"
  "reconnectDelay (send s r) = reconnectDelay s"
  "sockets (send s r) = sockets s" "subscriptions (send s r) = subscriptions s"
  "ws (send s r) = ws s" "config (send s r) = config s"
  by (simp_all add: send_def split: option.splits)

lemma exhaustedCount_send [simp]: "exhaustedCount (send s r) = exhaustedCount s"
  by (simp add: exhaustedCount_def)

































text \<open>The id 0 is falsy in \<open>if (reqId)\<close>: an entry that drew it is not removed by unsubscribe.\<close>

lemma zero_id_survives_unsubscribe:
  "subscriptions (unsubscribeFromTicks (subscribeToTicks connectedAPI ''frxEURUSD'' 0) ''frxEURUSD'')
     ''frxEURUSD'' = Some 0"
  by (simp add: api_eval subscribeToTicks_def unsubscribeFromTicks_def generateRequestId_def)

section \<open>Properties of ClientManager and of the tick listener\<close>

lemmas manager_eval = managerWith7_def managerNoToken_def account7_def request7_def newClientManager_def
  connectClient_def deliver_def objectAt_def isClientConnected_def

lemma managerWith7_simp:
  "managerWith7 =
     \<lparr> objects = [(7, onOpen (connect (newDerivAPI \<lparr>appId = ''76613'', apiToken = Some ''token'', wsUrl = None\<rparr>)) 0)],
       clientAPIs = [7 \<mapsto> 0], activeConnections = [7 \<mapsto> True] \<rparr>"
  by (simp add: manager_eval api_eval)

lemma managerNoToken_simp:
  "managerNoToken =
     \<lparr> objects = [(7, onOpen (connect (newDerivAPI \<lparr>appId = ''76613'', apiToken = Some [], wsUrl = None\<rparr>)) 0)],
       clientAPIs = [7 \<mapsto> 0], activeConnections = [7 \<mapsto> True] \<rparr>"
  by (simp add: manager_eval api_eval)

text \<open>
  C2, as stated, fails. Client 7 has a connected, active object at reference 0;
  \<open>connectClient\<close> for client 7 returns true and the registry then holds reference 1,
  a new object that is still connecting. The earlier object is still there, connected.
\<close>

theorem connectClient_twice_counterexample:
  "clientAPIs managerWith7 7 = Some 0 \<and> isClientConnected managerWith7 7 \<and>
   fst (connectClient managerWith7 account7) = True \<and>
   clientAPIs (snd (connectClient managerWith7 account7)) 7 = Some 1 \<and>
   map_option (\<lambda>obj. isConnected (snd obj)) (objectAt (snd (connectClient managerWith7 account7)) 0) = Some True \<and>
   map_option (\<lambda>obj. isConnected (snd obj)) (objectAt (snd (connectClient managerWith7 account7)) 1) = Some False"
  by (simp add: managerWith7_simp connectClient_def objectAt_def isClientConnected_def account7_def api_eval)

text \<open>
  C2, amended: \<open>connectClient\<close> never fails with AlreadyConnected. Whatever the
  registry holds for the client id, it returns true, constructs a new connecting object
  with the account's token and stores it under the client id, replacing an earlier entry.
  The objects constructed before, and \<open>activeConnections\<close>, are left as they are.
\<close>

theorem connectClient_replaces:
  "fst (connectClient m clientAccount) = True \<and>
   clientAPIs (snd (connectClient m clientAccount)) (ca_userId clientAccount) = Some (length (objects m)) \<and>
   objectAt m (length (objects m)) = None \<and>
   objectAt (snd (connectClient m clientAccount)) (length (objects m)) =
     Some (ca_userId clientAccount,
           connect (newDerivAPI \<lparr>appId = ''76613'', apiToken = Some (ca_apiToken clientAccount), wsUrl = None\<rparr>)) \<and>
   take (length (objects m)) (objects (snd (connectClient m clientAccount))) = objects m \<and>
   activeConnections (snd (connectClient m clientAccount)) = activeConnections m"
  by (simp add: connectClient_def objectAt_def Let_def)

text \<open>
  C8: \<open>placeTrade\<close> on an object without a token (none, or the empty string) fails
  with the error "API token required for trading" and sends nothing. When the object is
  registered for a client, \<open>placeTradeForClient\<close> fails too, with that error if the
  client is active and with "Client not connected" otherwise, and manager and storage are
  as before: no trade is created.
\<close>

theorem placeTrade_without_token:
  assumes "\<not> truthy (apiToken (config derivAPI))"
  shows "placeTrade derivAPI options = Inl ApiTokenRequired \<and>
    (clientAPIs m (tr_clientId tradeRequest) = Some ref \<and> objectAt m ref = Some (userId, derivAPI) \<longrightarrow>
       placeTradeForClient (m, store) tradeRequest now =
         (Inl (if isClientConnected m (tr_clientId tradeRequest) then ApiTokenRequired else ClientNotConnected),
          m, store))"
  using assms by (simp add: placeTrade_def placeTradeForClient_def Let_def)

theorem placeTrade_without_token_witness:
  "\<not> truthy (apiToken (config (newDerivAPI noTokenConfig))) \<and>
   placeTrade (newDerivAPI noTokenConfig) \<lparr> o_symbol = ''frxEURUSD'', o_tradeType = ''CALL'',
       o_amount = Decimal False 10 0, o_duration = 5, o_durationType = ''m'', o_basis = ''stake'' \<rparr>
     = Inl ApiTokenRequired \<and>
   clientAPIs managerNoToken 7 = Some 0 \<and>
   placeTradeForClient (managerNoToken, newMemStorage 0) request7 1 =
     (Inl ApiTokenRequired, managerNoToken, newMemStorage 0)"
proof -
  let ?api = "onOpen (connect (newDerivAPI \<lparr>appId = ''76613'', apiToken = Some [], wsUrl = None\<rparr>)) 0"
  have a: "\<not> truthy (apiToken (config (newDerivAPI noTokenConfig)))"
    by (simp add: newDerivAPI_def noTokenConfig_def truthy_def)
  have b: "\<not> truthy (apiToken (config ?api))"
    by (simp add: api_eval)
  have c: "clientAPIs managerNoToken (tr_clientId request7) = Some 0 \<and> objectAt managerNoToken 0 = Some (7, ?api)"
    "isClientConnected managerNoToken (tr_clientId request7)"
    by (simp_all add: managerNoToken_simp request7_def objectAt_def isClientConnected_def)
  show ?thesis
    using a c placeTrade_without_token [OF a]
      placeTrade_without_token [OF b, where m = managerNoToken and tradeRequest = request7 and ref = 0
        and userId = 7 and store = "newMemStorage 0" and now = 1]
    by (simp add: request7_def)
qed

text \<open>
  With a token the same request goes through and the trade is recorded.
\<close>

lemma placeTrade_with_token_creates:
  "fst (placeTradeForClient (managerWith7, newMemStorage 0) request7 1) =
     Inr \<lparr> t_id = 1, t_userId = 7, t_symbol = ''frxEURUSD'', t_tradeType = ''CALL'',
       t_contractType = ''Higher/Lower'', t_stake = ''10'', t_entryPrice = None, t_exitPrice = None,
       t_duration = 5, t_durationType = ''minutes'', t_status = ''open'', t_payout = None,
       t_profit = None, t_derivTradeId = None, t_createdAt = Some 1, t_closedAt = None \<rparr>"
  by (simp add: managerWith7_simp placeTradeForClient_def request7_def objectAt_def isClientConnected_def
      placeTrade_def api_eval createTrade_def newMemStorage_def orNull_def orDefault_def
      numberToString_def digitsOf.simps digitChar_def stripTrailingZeros_def)

lemma replicate_numeral: "replicate (numeral v) x = x # replicate (numeral v - 1) x"
  by (simp add: numeral_eq_Suc)

lemmas number_eval = numberToString_def digitsOf.simps digitChar_def stripTrailingZeros_def Let_def
  replicate_numeral

lemma numberToString_examples:
  "numberToString (Decimal False 10855 (- 4)) = ''1.0855''"
  "numberToString (Decimal False 100 0) = ''100''"
  "numberToString (Decimal True 5 (- 1)) = ''-0.5''"
  "numberToString (Decimal False 1 (- 7)) = ''1e-7''"
  "numberToString (Decimal False 123 20) = ''1.23e+22''"
  "numberToString (Decimal False 1250 (- 2)) = ''12.5''"
  "numberToString (Decimal False 5 (- 3)) = ''0.005''"
  "numberToString (Decimal False 0 (- 3)) = ''0''"
  by (simp_all add: number_eval)

text \<open>
  C7 at the input of the scenario: with market frxEURUSD stored and browser sockets 1
  and 3 open (2 closing), the tick with quote 1.0855 stores the current price 1.0855,
  the number's own rendering without padding to five decimals, and sends one price
  update holding that one market update to sockets 1 and 3.
\<close>

theorem tick_price_not_padded:
  "map_option m_currentPrice (markets (storage routesExample) ''frxEURUSD'') = Some (Some ''0.00000'') \<and>
   map_option m_currentPrice (markets (storage (onTick routesExample tickExample 5 5)) ''frxEURUSD'')
     = Some (Some ''1.0855'') \<and>
   delivered (onTick routesExample tickExample 5 5) =
     [(1, PriceUpdateEnvelope [marketUpdateOf tickExample 5]),
      (3, PriceUpdateEnvelope [marketUpdateOf tickExample 5])] \<and>
   mu_currentPrice (marketUpdateOf tickExample 5) = Some (Some ''1.0855'')"
  by (simp add: routesExample_def tickExample_def onTick_def marketUpdateOf_def updateMarket_def
      createMarket_def marketEURUSD_def orNull_def spread_def Let_def
      numberToString_def digitsOf.simps digitChar_def stripTrailingZeros_def)

end
